theory Spec2Isabelle
  imports Main
begin

section \<open>The note service of mind-reminder (src/modules/note/note.service.ts)\<close>

text \<open>
  The service is five methods over two document collections, \<open>noteModel\<close> and
  \<open>channelModel\<close>. Each method is a \<open>try\<close> block (here \<open>createNote_try\<close>,
  \<open>getNote_try\<close>, ...) whose \<open>catch\<close> re-throws a fresh \<open>HttpException\<close>
  (here \<open>catch_rethrow\<close>). A method is modelled as a function from the service state to
  the outcome (\<open>Inl\<close> the thrown error, \<open>Inr\<close> the response) paired with the state
  after the call.
\<close>

subsection \<open>Values, documents and query filters\<close>

text \<open>
  JavaScript values as far as the service handles them. \<open>VUndefined\<close> is what
  reading a property that an object does not have gives. In a filter and in a stored
  document \<open>VNull\<close> stands for null and for a missing field: a filter \<open>{f: null}\<close>
  matches a document where \<open>f\<close> is null or absent, and a filter \<open>{f: "x"}\<close> matches
  neither.
\<close>

datatype val =
    VNull
  | VUndefined
  | VBool bool
  | VStr string
  | VArr "string list"
  | VObj "(string \<times> val) list"

type_synonym obj = "(string \<times> val) list"

type_synonym filter_query = "(string \<times> val) list"

text \<open>
  The schema classes \<open>Note\<close> and \<open>Channel\<close> are imported from \<open>@schema\<close> and are not
  part of the source file. Modelled from the spec: section 3 lists the fields of a Note
  (identifier, content, tags, channel, user, status) and of a Channel (identifier, name,
  type, isDefault, user, deletedAt). Identifiers are opaque strings, stored under the
  path \<open>_id\<close>. The name \<open>id\<close> is not a stored path: \<open>createNote\<close> stores none, and
  the \<open>id\<close> it returns is later used as the \<open>_id\<close> of a filter. It is the getter that a
  hydrated document has for its \<open>_id\<close> (\<open>newNote.id\<close>, \<open>channel.id\<close>, here \<open>nid\<close> and
  \<open>cid\<close>); a document read with \<open>lean()\<close> is the plain stored object and has no such
  getter.
\<close>

record Note =
  nid :: string
  content :: string
  tags :: "string list"
  channel :: string
  user :: string
  status :: string

record Channel =
  cid :: string
  name :: string
  ctype :: string
  isDefault :: bool
  cuser :: string
  deletedAt :: "string option"

definition note_paths :: "string list" where
  "note_paths = [''_id'', ''content'', ''tags'', ''channel'', ''user'', ''status'']"

definition channel_paths :: "string list" where
  "channel_paths = [''_id'', ''name'', ''type'', ''isDefault'', ''user'', ''deletedAt'']"

definition note_path :: "Note \<Rightarrow> string \<Rightarrow> val" where
  "note_path n k =
     (if k = ''_id'' then VStr (nid n)
      else if k = ''content'' then VStr (content n)
      else if k = ''tags'' then VArr (tags n)
      else if k = ''channel'' then VStr (channel n)
      else if k = ''user'' then VStr (user n)
      else if k = ''status'' then VStr (status n)
      else VNull)"

definition channel_path :: "Channel \<Rightarrow> string \<Rightarrow> val" where
  "channel_path c k =
     (if k = ''_id'' then VStr (cid c)
      else if k = ''name'' then VStr (name c)
      else if k = ''type'' then VStr (ctype c)
      else if k = ''isDefault'' then VBool (isDefault c)
      else if k = ''user'' then VStr (cuser c)
      else if k = ''deletedAt'' then (case deletedAt c of None \<Rightarrow> VNull | Some d \<Rightarrow> VStr d)
      else VNull)"

text \<open>
  Mongoose casts a filter against the schema before it is sent: with the \<open>strictQuery\<close>
  option on, keys that are not paths of the schema are removed from the filter; with the
  option off they are sent as they are. The option's value is fixed by the Mongoose
  version and the application's configuration, neither of which is in the source file,
  so it is a field of the service state.
\<close>

definition cast_filter :: "bool \<Rightarrow> string list \<Rightarrow> filter_query \<Rightarrow> filter_query" where
  "cast_filter strict paths f = (if strict then filter (\<lambda>kv. fst kv \<in> set paths) f else f)"

definition matches :: "('d \<Rightarrow> string \<Rightarrow> val) \<Rightarrow> filter_query \<Rightarrow> 'd \<Rightarrow> bool" where
  "matches path f d = list_all (\<lambda>kv. path d (fst kv) = snd kv) f"

text \<open>\<open>deleteOne\<close>: removes the first matching document; returns the list and \<open>deletedCount\<close>.\<close>

fun delete_first :: "('d \<Rightarrow> bool) \<Rightarrow> 'd list \<Rightarrow> 'd list \<times> nat" where
  "delete_first P [] = ([], 0)"
| "delete_first P (d # ds) =
     (if P d then (ds, 1)
      else (d # fst (delete_first P ds), snd (delete_first P ds)))"

text \<open>
  \<open>updateOne\<close>: rewrites the first matching document; returns the list, \<open>matchedCount\<close>
  and \<open>modifiedCount\<close>. A matched document that the update leaves as it was is not
  counted as modified, unless the update also stamps it (\<open>touch\<close>: the schema's
  \<open>timestamps\<close> option adds the time of the update to every update).
\<close>

fun update_first ::
  "('d \<Rightarrow> bool) \<Rightarrow> ('d \<Rightarrow> 'd) \<Rightarrow> bool \<Rightarrow> 'd list \<Rightarrow> 'd list \<times> nat \<times> nat" where
  "update_first P g touch [] = ([], 0, 0)"
| "update_first P g touch (d # ds) =
     (if P d then (g d # ds, 1, if g d = d \<and> \<not> touch then 0 else 1)
      else (d # fst (update_first P g touch ds), snd (update_first P g touch ds)))"

text \<open>
  \<open>$set: payload\<close>: every key of the payload that is a settable path of the Note schema
  is assigned; other keys are dropped (the identifier cannot be assigned).
\<close>

definition set_path :: "Note \<Rightarrow> string \<times> val \<Rightarrow> Note" where
  "set_path n kv =
     (case kv of
        (k, VStr v) \<Rightarrow>
          (if k = ''content'' then n\<lparr>content := v\<rparr>
           else if k = ''channel'' then n\<lparr>channel := v\<rparr>
           else if k = ''user'' then n\<lparr>user := v\<rparr>
           else if k = ''status'' then n\<lparr>status := v\<rparr>
           else n)
      | (k, VArr v) \<Rightarrow> (if k = ''tags'' then n\<lparr>tags := v\<rparr> else n)
      | _ \<Rightarrow> n)"

definition apply_set :: "obj \<Rightarrow> Note \<Rightarrow> Note" where
  "apply_set payload n = foldl set_path n payload"

text \<open>
  \<open>select\<close> with an inclusive field list, on a \<open>lean()\<close> query: the plain object
  with those of the listed names that are stored paths, and \<open>_id\<close> as well unless it is
  excluded by \<open>-_id\<close> (as the query of \<open>getNote\<close> does for the note, and the \<open>select\<close>
  of its \<open>populate\<close> does not for the channel). A listed name that is no stored path,
  such as \<open>id\<close>, selects nothing. \<open>skip\<close> and \<open>limit\<close> as the store applies them: a
  limit of 0 means no limit.
\<close>

definition select_doc ::
  "('d \<Rightarrow> string \<Rightarrow> val) \<Rightarrow> string list \<Rightarrow> bool \<Rightarrow> string list \<Rightarrow> 'd \<Rightarrow> obj" where
  "select_doc path paths minus_id ks d =
     map (\<lambda>k. (k, path d k))
       (filter (\<lambda>k. k \<in> set paths) ((if minus_id then [] else [''_id'']) @ ks))"

definition limit_docs :: "nat \<Rightarrow> 'd list \<Rightarrow> 'd list" where
  "limit_docs l ds = (if l = 0 then ds else take l ds)"

definition obj_get :: "obj \<Rightarrow> string \<Rightarrow> val" where
  "obj_get ob k = (case map_of ob k of None \<Rightarrow> VUndefined | Some v \<Rightarrow> v)"

subsection \<open>Errors, responses and the service state\<close>

datatype HttpStatus = OK | CREATED | NO_CONTENT | NOT_FOUND | INTERNAL_SERVER_ERROR

fun http_code :: "HttpStatus \<Rightarrow> nat" where
  "http_code OK = 200"
| "http_code CREATED = 201"
| "http_code NO_CONTENT = 204"
| "http_code NOT_FOUND = 404"
| "http_code INTERNAL_SERVER_ERROR = 500"

text \<open>
  What a method body can throw: an \<open>HttpException\<close> it raises itself, or an error of the
  store driver. Both carry a message; only the first carries a status.
\<close>

datatype error = HttpException string HttpStatus | StoreError string

fun message :: "error \<Rightarrow> string" where
  "message (HttpException m st) = m"
| "message (StoreError m) = m"

fun error_status :: "error \<Rightarrow> HttpStatus option" where
  "error_status (HttpException m st) = Some st"
| "error_status (StoreError m) = None"

record 'a ResponseType =
  data :: 'a
  statusCode :: HttpStatus

record CreateNoteDto =
  channelId :: "string option"
  dto_content :: string
  dto_tags :: "string list"

record CreateNoteResponseDto =
  created_id :: string

record GetNotesQueryDto =
  skip :: nat
  limit :: nat

record PageMetaDto =
  totalRecord :: nat
  pageOptionsDto :: GetNotesQueryDto

record PageDto =
  page_data :: "obj list"
  meta :: PageMetaDto

text \<open>The counts of an update are numbers, or undefined (\<open>None\<close>).\<close>

record UpdateNoteResponseDto =
  updated_id :: string
  matchedCount :: "nat option"
  modifiedCount :: "nat option"

record DeleteNoteResponseDto =
  deleted_id :: string
  deletedCount :: nat

text \<open>
  The service state: the two collections in store order, the \<open>strictQuery\<close> option,
  the \<open>timestamps\<close> option of the Note schema and the status a new Note gets from the
  schema (none of them in the source file), and \<open>outage\<close>: when it is \<open>Some m\<close> every
  call to the store throws a driver error with message \<open>m\<close>.
\<close>

record NoteService =
  noteModel :: "Note list"
  channelModel :: "Channel list"
  strictQuery :: bool
  timestamps :: bool
  statusDefault :: string
  outage :: "string option"

definition store_call :: "NoteService \<Rightarrow> 'a \<Rightarrow> error + 'a" where
  "store_call s v = (case outage s of Some m \<Rightarrow> Inl (StoreError m) | None \<Rightarrow> Inr v)"

definition note_matches :: "NoteService \<Rightarrow> filter_query \<Rightarrow> Note \<Rightarrow> bool" where
  "note_matches s f = matches note_path (cast_filter (strictQuery s) note_paths f)"

definition channel_matches :: "NoteService \<Rightarrow> filter_query \<Rightarrow> Channel \<Rightarrow> bool" where
  "channel_matches s f = matches channel_path (cast_filter (strictQuery s) channel_paths f)"

text \<open>
  \<open>create\<close> appends a document; the store refuses a second document with an identifier
  already in the collection (duplicate key).
\<close>

definition note_create :: "NoteService \<Rightarrow> Note \<Rightarrow> error + NoteService" where
  "note_create s n =
     (case outage s of
        Some m \<Rightarrow> Inl (StoreError m)
      | None \<Rightarrow>
          (if nid n \<in> set (map nid (noteModel s))
           then Inl (StoreError ''E11000 duplicate key error'')
           else Inr (s\<lparr>noteModel := noteModel s @ [n]\<rparr>)))"

text \<open>JavaScript truthiness of \<open>payload.channelId\<close>: absent and the empty string are falsy.\<close>

fun truthy :: "string option \<Rightarrow> bool" where
  "truthy None = False"
| "truthy (Some c) = (c \<noteq> [])"

fun string_of :: "string option \<Rightarrow> string" where
  "string_of None = []"
| "string_of (Some c) = c"

definition catch_rethrow :: "(error + 'a) \<times> NoteService \<Rightarrow> (error + 'a) \<times> NoteService" where
  "catch_rethrow r =
     (case fst r of
        Inl e \<Rightarrow> (Inl (HttpException (message e) INTERNAL_SERVER_ERROR), snd r)
      | Inr v \<Rightarrow> (Inr v, snd r))"

subsection \<open>createNote\<close>

text \<open>
  \<open>newId\<close> is the identifier the driver generates for the new document.
\<close>

definition default_channel_filter :: "string \<Rightarrow> filter_query" where
  "default_channel_filter userId =
     [(''isDefault'', VBool True), (''user'', VStr userId), (''deletedAt'', VNull)]"

definition resolve_channel :: "CreateNoteDto \<Rightarrow> string \<Rightarrow> NoteService \<Rightarrow> error + string" where
  "resolve_channel payload userId s =
     (if \<not> truthy (channelId payload) then
        (case store_call s
                (List.find (channel_matches s (default_channel_filter userId)) (channelModel s)) of
           Inl e \<Rightarrow> Inl e
         | Inr None \<Rightarrow>
             Inl (HttpException ''You need to connect to at least one channel'' NOT_FOUND)
         | Inr (Some ch) \<Rightarrow> Inr (cid ch))
      else Inr (string_of (channelId payload)))"

definition createNote_try ::
  "string \<Rightarrow> CreateNoteDto \<Rightarrow> string \<Rightarrow> NoteService \<Rightarrow>
     (error + CreateNoteResponseDto ResponseType) \<times> NoteService" where
  "createNote_try newId payload userId s =
     (case resolve_channel payload userId s of
        Inl e \<Rightarrow> (Inl e, s)
      | Inr chId \<Rightarrow>
          (case note_create s
                  \<lparr>nid = newId, content = dto_content payload, tags = dto_tags payload,
                   channel = chId, user = userId, status = statusDefault s\<rparr> of
             Inl e \<Rightarrow> (Inl e, s)
           | Inr s' \<Rightarrow>
               (Inr \<lparr>data = \<lparr>created_id = newId\<rparr>, statusCode = CREATED\<rparr>, s')))"

definition createNote ::
  "string \<Rightarrow> CreateNoteDto \<Rightarrow> string \<Rightarrow> NoteService \<Rightarrow>
     (error + CreateNoteResponseDto ResponseType) \<times> NoteService" where
  "createNote newId payload userId s = catch_rethrow (createNote_try newId payload userId s)"

subsection \<open>getNote\<close>

definition note_filter :: "string \<Rightarrow> string \<Rightarrow> filter_query" where
  "note_filter id' userId = [(''_id'', VStr id'), (''user'', VStr userId)]"

text \<open>
  \<open>populate\<close> replaces the channel reference by the referenced document, cut down by
  \<open>select: 'name type'\<close>, or by null when no channel has that identifier.
\<close>

definition populate_channel :: "NoteService \<Rightarrow> obj \<Rightarrow> obj" where
  "populate_channel s ob =
     map (\<lambda>kv. if fst kv = ''channel''
                then (fst kv,
                      (case List.find (channel_matches s [(''_id'', snd kv)]) (channelModel s) of
                         None \<Rightarrow> VNull
                       | Some ch \<Rightarrow>
                           VObj (select_doc channel_path channel_paths False
                                   [''name'', ''type''] ch)))
                else kv) ob"

definition getNote_try ::
  "string \<Rightarrow> string \<Rightarrow> NoteService \<Rightarrow> (error + obj ResponseType) \<times> NoteService" where
  "getNote_try id' userId s =
     (case store_call s (List.find (note_matches s (note_filter id' userId)) (noteModel s)) of
        Inl e \<Rightarrow> (Inl e, s)
      | Inr None \<Rightarrow> (Inl (HttpException ''Note Not Found'' NOT_FOUND), s)
      | Inr (Some doc) \<Rightarrow>
          (let note = populate_channel s
                        (select_doc note_path note_paths True
                           [''id'', ''content'', ''tags'', ''channel'', ''status''] doc)
           in (Inr \<lparr>data = [(''id'', obj_get note ''id''),
                             (''content'', obj_get note ''content''),
                             (''tags'', obj_get note ''tags''),
                             (''channel'', obj_get note ''channel'')],
                     statusCode = OK\<rparr>, s)))"

definition getNote ::
  "string \<Rightarrow> string \<Rightarrow> NoteService \<Rightarrow> (error + obj ResponseType) \<times> NoteService" where
  "getNote id' userId s = catch_rethrow (getNote_try id' userId s)"

subsection \<open>getNotes\<close>

definition getNotes_try ::
  "GetNotesQueryDto \<Rightarrow> string \<Rightarrow> NoteService \<Rightarrow> (error + PageDto ResponseType) \<times> NoteService" where
  "getNotes_try query userId s =
     (case store_call s
             (map (select_doc note_path note_paths True
                     [''id'', ''content'', ''tags'', ''status''])
                (limit_docs (limit query)
                   (drop (skip query)
                      (filter (note_matches s [(''user'', VStr userId)]) (noteModel s))))) of
        Inl e \<Rightarrow> (Inl e, s)
      | Inr notes \<Rightarrow>
          (case store_call s
                  (length (filter (note_matches s [(''userId'', VStr userId)]) (noteModel s))) of
             Inl e \<Rightarrow> (Inl e, s)
           | Inr cnt \<Rightarrow>
               (Inr \<lparr>data = \<lparr>page_data = notes,
                               meta = \<lparr>totalRecord = cnt, pageOptionsDto = query\<rparr>\<rparr>,
                     statusCode = OK\<rparr>, s)))"

definition getNotes ::
  "GetNotesQueryDto \<Rightarrow> string \<Rightarrow> NoteService \<Rightarrow> (error + PageDto ResponseType) \<times> NoteService" where
  "getNotes query userId s = catch_rethrow (getNotes_try query userId s)"

subsection \<open>updateNote\<close>

text \<open>
  Mongoose casts the update against the schema before it sends it: keys of the payload
  that are not paths of the Note schema are dropped, and the \<open>timestamps\<close> option adds
  the time of the update. When nothing is left, no command is sent: the store is not
  contacted and the result has neither \<open>matchedCount\<close> nor \<open>modifiedCount\<close>, which the
  method then reads as undefined.
\<close>

definition update_sent :: "NoteService \<Rightarrow> obj \<Rightarrow> bool" where
  "update_sent s payload \<longleftrightarrow> timestamps s \<or> (\<exists>k\<in>set (map fst payload). k \<in> set note_paths)"

definition updateNote_try ::
  "string \<Rightarrow> string \<Rightarrow> obj \<Rightarrow> NoteService \<Rightarrow>
     (error + UpdateNoteResponseDto ResponseType) \<times> NoteService" where
  "updateNote_try id' userId payload s =
     (if update_sent s payload then
        (case store_call s
                (update_first (note_matches s (note_filter id' userId)) (apply_set payload)
                   (timestamps s) (noteModel s)) of
           Inl e \<Rightarrow> (Inl e, s)
         | Inr result \<Rightarrow>
             (Inr \<lparr>data = \<lparr>updated_id = id', matchedCount = Some (fst (snd result)),
                             modifiedCount = Some (snd (snd result))\<rparr>,
                   statusCode = OK\<rparr>,
              s\<lparr>noteModel := fst result\<rparr>))
      else
        (Inr \<lparr>data = \<lparr>updated_id = id', matchedCount = None, modifiedCount = None\<rparr>,
              statusCode = OK\<rparr>, s))"

definition updateNote ::
  "string \<Rightarrow> string \<Rightarrow> obj \<Rightarrow> NoteService \<Rightarrow>
     (error + UpdateNoteResponseDto ResponseType) \<times> NoteService" where
  "updateNote id' userId payload s = catch_rethrow (updateNote_try id' userId payload s)"

subsection \<open>deleteNote\<close>

text \<open>
  The two deletions of \<open>Promise.all\<close> act on different collections, so the order in
  which the store runs them does not change the state; only the first result is kept.
\<close>

definition deleteNote_try ::
  "string \<Rightarrow> string \<Rightarrow> NoteService \<Rightarrow>
     (error + DeleteNoteResponseDto ResponseType) \<times> NoteService" where
  "deleteNote_try id' userId s =
     (case store_call s (List.find (note_matches s (note_filter id' userId)) (noteModel s)) of
        Inl e \<Rightarrow> (Inl e, s)
      | Inr None \<Rightarrow> (Inl (HttpException ''Note Not Found'' NOT_FOUND), s)
      | Inr (Some note) \<Rightarrow>
          (case store_call s
                  (delete_first (note_matches s (note_filter id' userId)) (noteModel s)) of
             Inl e \<Rightarrow> (Inl e, s)
           | Inr result \<Rightarrow>
               (case store_call s
                       (delete_first (channel_matches s [(''_id'', VStr (channel note))])
                          (channelModel s)) of
                  Inl e \<Rightarrow> (Inl e, s\<lparr>noteModel := fst result\<rparr>)
                | Inr chResult \<Rightarrow>
                    (Inr \<lparr>data = \<lparr>deleted_id = id', deletedCount = snd result\<rparr>,
                          statusCode = NO_CONTENT\<rparr>,
                     s\<lparr>noteModel := fst result, channelModel := fst chResult\<rparr>))))"

definition deleteNote ::
  "string \<Rightarrow> string \<Rightarrow> NoteService \<Rightarrow>
     (error + DeleteNoteResponseDto ResponseType) \<times> NoteService" where
  "deleteNote id' userId s = catch_rethrow (deleteNote_try id' userId s)"

subsection \<open>Example documents and states\<close>

definition ex_channel :: Channel where
  "ex_channel = \<lparr>cid = ''c1'', name = ''general'', ctype = ''telegram'', isDefault = True,
                  cuser = ''u1'', deletedAt = None\<rparr>"

definition ex_note :: Note where
  "ex_note = \<lparr>nid = ''n1'', content = ''buy milk'', tags = [''home''], channel = ''c1'',
               user = ''u1'', status = ''pending''\<rparr>"

definition ex_note2 :: Note where
  "ex_note2 = \<lparr>nid = ''n2'', content = ''call bob'', tags = [], channel = ''c1'',
                user = ''u2'', status = ''pending''\<rparr>"

definition ex_service :: "Note list \<Rightarrow> Channel list \<Rightarrow> bool \<Rightarrow> NoteService" where
  "ex_service ns cs strict =
     \<lparr>noteModel = ns, channelModel = cs, strictQuery = strict, timestamps = False,
      statusDefault = ''pending'', outage = None\<rparr>"

definition ex_payload :: CreateNoteDto where
  "ex_payload = \<lparr>channelId = None, dto_content = ''buy milk'', dto_tags = [''home'']\<rparr>"

subsection \<open>What a filter means on the typed documents\<close>

lemma note_filter_iff:
  "note_matches s (note_filter i u) n \<longleftrightarrow> nid n = i \<and> user n = u"
  by (simp add: note_matches_def note_filter_def matches_def cast_filter_def note_paths_def
      note_path_def)

lemma default_channel_iff:
  "channel_matches s (default_channel_filter u) c \<longleftrightarrow>
     isDefault c \<and> cuser c = u \<and> deletedAt c = None"
  by (auto simp add: channel_matches_def default_channel_filter_def matches_def cast_filter_def
      channel_paths_def channel_path_def split: option.splits)

lemma channel_id_iff:
  "channel_matches s [(''_id'', VStr c)] ch \<longleftrightarrow> cid ch = c"
  by (simp add: channel_matches_def matches_def cast_filter_def channel_paths_def channel_path_def)

lemma owner_filter_iff:
  "note_matches s [(''user'', VStr u)] n \<longleftrightarrow> user n = u"
  by (simp add: note_matches_def matches_def cast_filter_def note_paths_def note_path_def)

lemma count_filter_iff:
  "note_matches s [(''userId'', VStr u)] n \<longleftrightarrow> strictQuery s"
  by (simp add: note_matches_def matches_def cast_filter_def note_paths_def note_path_def)

lemma note_matches_fun: "note_matches s (note_filter i u) = (\<lambda>n. nid n = i \<and> user n = u)"
  by (rule ext) (simp add: note_filter_iff)

lemma default_channel_fun:
  "channel_matches s (default_channel_filter u) =
     (\<lambda>c. isDefault c \<and> cuser c = u \<and> deletedAt c = None)"
  by (rule ext) (simp add: default_channel_iff)

lemma channel_id_fun: "channel_matches s [(''_id'', VStr c)] = (\<lambda>ch. cid ch = c)"
  by (rule ext) (simp add: channel_id_iff)

lemma owner_filter_fun: "note_matches s [(''user'', VStr u)] = (\<lambda>n. user n = u)"
  by (rule ext) (simp add: owner_filter_iff)

lemma count_filter_fun: "note_matches s [(''userId'', VStr u)] = (\<lambda>n. strictQuery s)"
  by (rule ext) (simp add: count_filter_iff)

lemma delete_first_none: "\<forall>d\<in>set ds. \<not> P d \<Longrightarrow> delete_first P ds = (ds, 0)"
proof (induction ds)
  case Nil
  show ?case by simp
next
  case (Cons a ds)
  then have "\<not> P a" and "delete_first P ds = (ds, 0)" by simp_all
  then show ?case by simp
qed

lemma update_first_none: "\<forall>d\<in>set ds. \<not> P d \<Longrightarrow> update_first P g b ds = (ds, 0, 0)"
proof (induction ds)
  case Nil
  show ?case by simp
next
  case (Cons a ds)
  then have "\<not> P a" and "update_first P g b ds = (ds, 0, 0)" by simp_all
  then show ?case by simp
qed

lemma delete_first_unique:
  "distinct (map key ds) \<Longrightarrow> d \<in> set ds \<Longrightarrow> P d \<Longrightarrow> (\<And>x. P x \<Longrightarrow> key x = key d) \<Longrightarrow>
   delete_first P ds = (filter (\<lambda>x. key x \<noteq> key d) ds, 1)"
proof (induction ds)
  case Nil
  from Nil.prems(2) show ?case by simp
next
  case (Cons a ds)
  show ?case
  proof (cases "P a")
    case True
    then have ka: "key a = key d" using Cons.prems(4) by blast
    have "\<forall>x\<in>set ds. key x \<noteq> key d" using Cons.prems(1) ka by (auto simp: image_iff)
    then have "filter (\<lambda>x. key x \<noteq> key d) ds = ds" by (simp add: filter_id_conv)
    with True ka show ?thesis by simp
  next
    case False
    then have "d \<in> set ds" using Cons.prems(2,3) by auto
    moreover have "distinct (map key ds)" using Cons.prems(1) by simp
    ultimately have ih: "delete_first P ds = (filter (\<lambda>x. key x \<noteq> key d) ds, 1)"
      using Cons.IH Cons.prems(3,4) by blast
    have "key a \<noteq> key d" using Cons.prems(1) \<open>d \<in> set ds\<close> by (auto simp: image_iff)
    with False ih show ?thesis by simp
  qed
qed

lemma find_filter_single: "filter P xs = [x] \<Longrightarrow> List.find P xs = Some x"
proof (induction xs)
  case Nil
  then show ?case by simp
next
  case (Cons a xs)
  then show ?case by (cases "P a") simp_all
qed

lemma catch_rethrow_Inl:
  "fst r = Inl e \<Longrightarrow> catch_rethrow r = (Inl (HttpException (message e) INTERNAL_SERVER_ERROR), snd r)"
  by (simp add: catch_rethrow_def)

lemma catch_rethrow_Inr: "fst r = Inr v \<Longrightarrow> catch_rethrow r = (Inr v, snd r)"
  by (simp add: catch_rethrow_def)

lemma catch_rethrow_status:
  "fst (catch_rethrow r) = Inl e \<Longrightarrow> error_status e = Some INTERNAL_SERVER_ERROR"
  by (cases "fst r") (auto simp: catch_rethrow_def)

lemma catch_rethrow_state: "snd (catch_rethrow r) = snd r"
  by (cases "fst r") (auto simp: catch_rethrow_def)

lemma find_none: "\<forall>x\<in>set xs. \<not> P x \<Longrightarrow> List.find P xs = None"
  by (simp add: find_None_iff)

lemma getNote_try_found:
  assumes "outage s = None"
    and "List.find (\<lambda>n. nid n = i \<and> user n = u) (noteModel s) = Some n"
  shows "getNote_try i u s =
           (Inr \<lparr>data = [(''id'', VUndefined), (''content'', VStr (content n)),
                          (''tags'', VArr (tags n)),
                          (''channel'',
                           (case List.find (\<lambda>c. cid c = channel n) (channelModel s) of
                              None \<Rightarrow> VNull
                            | Some ch \<Rightarrow> VObj [(''_id'', VStr (cid ch)), (''name'', VStr (name ch)),
                                               (''type'', VStr (ctype ch))]))],
                  statusCode = OK\<rparr>, s)"
  using assms
  by (simp add: getNote_try_def store_call_def note_matches_fun select_doc_def
      populate_channel_def obj_get_def note_path_def channel_id_fun channel_path_def
      note_paths_def channel_paths_def split: option.splits)

lemma getNote_try_not_found:
  assumes "outage s = None"
    and "\<forall>n\<in>set (noteModel s). \<not> (nid n = i \<and> user n = u)"
  shows "getNote_try i u s = (Inl (HttpException ''Note Not Found'' NOT_FOUND), s)"
  using assms(1) find_none [OF assms(2)]
  by (simp add: getNote_try_def store_call_def note_matches_fun)

lemma deleteNote_try_not_found:
  assumes "outage s = None"
    and "\<forall>n\<in>set (noteModel s). \<not> (nid n = i \<and> user n = u)"
  shows "deleteNote_try i u s = (Inl (HttpException ''Note Not Found'' NOT_FOUND), s)"
  using assms(1) find_none [OF assms(2)]
  by (simp add: deleteNote_try_def store_call_def note_matches_fun)

lemma createNote_try_no_channel:
  assumes "outage s = None" and "\<not> truthy (channelId p)"
    and "\<forall>c\<in>set (channelModel s). \<not> (isDefault c \<and> cuser c = u \<and> deletedAt c = None)"
  shows "createNote_try newId p u s =
           (Inl (HttpException ''You need to connect to at least one channel'' NOT_FOUND), s)"
  using assms(1,2) find_none [OF assms(3)]
  by (simp add: createNote_try_def resolve_channel_def store_call_def default_channel_fun)

lemma outage_createNote_try:
  "outage s = Some m \<Longrightarrow> createNote_try newId p u s = (Inl (StoreError m), s)"
  by (simp add: createNote_try_def resolve_channel_def store_call_def note_create_def)

lemma outage_getNote_try: "outage s = Some m \<Longrightarrow> getNote_try i u s = (Inl (StoreError m), s)"
  by (simp add: getNote_try_def store_call_def)

lemma outage_getNotes_try: "outage s = Some m \<Longrightarrow> getNotes_try q u s = (Inl (StoreError m), s)"
  by (simp add: getNotes_try_def store_call_def)

lemma outage_updateNote_try:
  "outage s = Some m \<Longrightarrow> update_sent s pl \<Longrightarrow>
   updateNote_try i u pl s = (Inl (StoreError m), s)"
  by (simp add: updateNote_try_def store_call_def)

lemma outage_deleteNote_try:
  "outage s = Some m \<Longrightarrow> deleteNote_try i u s = (Inl (StoreError m), s)"
  by (simp add: deleteNote_try_def store_call_def)

lemma rethrow_fst:
  "fst r = Inl e \<Longrightarrow> fst (catch_rethrow r) = Inl (HttpException (message e) INTERNAL_SERVER_ERROR)"
  by (simp add: catch_rethrow_def)

lemmas eval_defs = createNote_def createNote_try_def resolve_channel_def note_create_def
  getNote_def getNote_try_def getNotes_def getNotes_try_def updateNote_def updateNote_try_def
  deleteNote_def deleteNote_try_def catch_rethrow_def store_call_def
  note_matches_fun default_channel_fun channel_id_fun owner_filter_fun count_filter_fun
  select_doc_def populate_channel_def obj_get_def note_path_def channel_path_def limit_docs_def
  note_paths_def channel_paths_def update_sent_def
  ex_service_def ex_note_def ex_note2_def ex_channel_def ex_payload_def

subsection \<open>Supporting lemmas: ownership, pagination, cascade\<close>

lemma update_first_length: "length (fst (update_first P g b ds)) = length ds"
  by (induction ds) simp_all

lemma update_first_keeps:
  "k < length ds \<Longrightarrow> \<not> P (ds ! k) \<Longrightarrow> fst (update_first P g b ds) ! k = ds ! k"
proof (induction ds arbitrary: k)
  case Nil
  then show ?case by simp
next
  case (Cons a ds)
  show ?case
  proof (cases k)
    case 0
    with Cons.prems show ?thesis by simp
  next
    case (Suc j)
    with Cons show ?thesis by simp
  qed
qed

lemma delete_first_keeps:
  "(\<And>x. P x \<Longrightarrow> \<not> Q x) \<Longrightarrow> filter Q (fst (delete_first P ds)) = filter Q ds"
  by (induction ds) simp_all

lemma delete_first_by_key:
  "distinct (map key ds) \<Longrightarrow>
   fst (delete_first (\<lambda>x. key x = k) ds) = filter (\<lambda>x. key x \<noteq> k) ds"
proof (induction ds)
  case Nil
  show ?case by simp
next
  case (Cons a ds)
  show ?case
  proof (cases "key a = k")
    case True
    have "\<forall>x\<in>set ds. key x \<noteq> k" using Cons.prems True by (auto simp: image_iff)
    then have "filter (\<lambda>x. key x \<noteq> k) ds = ds" by (simp add: filter_id_conv)
    with True show ?thesis by simp
  next
    case False
    with Cons show ?thesis by simp
  qed
qed

lemma find_unique:
  "distinct (map key ds) \<Longrightarrow> d \<in> set ds \<Longrightarrow> P d \<Longrightarrow> (\<And>x. P x \<Longrightarrow> key x = key d) \<Longrightarrow>
   List.find P ds = Some d"
proof (induction ds)
  case Nil
  from Nil.prems(2) show ?case by simp
next
  case (Cons a ds)
  show ?case
  proof (cases "P a")
    case True
    then have ka: "key a = key d" using Cons.prems(4) by blast
    have "a = d"
    proof (rule ccontr)
      assume "a \<noteq> d"
      then have "d \<in> set ds" using Cons.prems(2) by simp
      then have "key d \<in> set (map key ds)" by simp
      then show False using Cons.prems(1) ka by simp
    qed
    with True show ?thesis by simp
  next
    case False
    then have "d \<in> set ds" using Cons.prems(2,3) by auto
    moreover have "distinct (map key ds)" using Cons.prems(1) by simp
    ultimately have "List.find P ds = Some d" using Cons.IH Cons.prems(3,4) by blast
    with False show ?thesis by simp
  qed
qed

lemma find_Some_in: "List.find P xs = Some x \<Longrightarrow> x \<in> set xs \<and> P x"
  by (induction xs) (auto split: if_splits)

lemma set_limit_docs: "set (limit_docs l ds) \<subseteq> set ds"
  by (auto simp: limit_docs_def dest: in_set_takeD)

lemma getNote_owner_scoped:
  assumes "fst (getNote i u s) = Inr r"
  shows "\<exists>n\<in>set (noteModel s). user n = u \<and> nid n = i
           \<and> obj_get (data r) ''content'' = VStr (content n)
           \<and> obj_get (data r) ''tags'' = VArr (tags n)
           \<and> (obj_get (data r) ''channel'' = VNull
                \<or> (\<exists>ch\<in>set (channelModel s). cid ch = channel n
                      \<and> obj_get (data r) ''channel'' =
                          VObj [(''_id'', VStr (cid ch)), (''name'', VStr (name ch)),
                                (''type'', VStr (ctype ch))]))"
proof (cases "outage s")
  case (Some m)
  with assms show ?thesis
    by (simp add: getNote_def outage_getNote_try catch_rethrow_def)
next
  case None
  show ?thesis
  proof (cases "List.find (\<lambda>n. nid n = i \<and> user n = u) (noteModel s)")
    case N: None
    then have "\<forall>n\<in>set (noteModel s). \<not> (nid n = i \<and> user n = u)"
      by (simp add: find_None_iff)
    from getNote_try_not_found [OF None this] assms show ?thesis
      by (simp add: getNote_def catch_rethrow_def)
  next
    case (Some n)
    from find_Some_in [OF Some] have n: "n \<in> set (noteModel s)" "nid n = i" "user n = u"
      by simp_all
    from getNote_try_found [OF None Some] assms
    have r: "data r = [(''id'', VUndefined), (''content'', VStr (content n)),
                          (''tags'', VArr (tags n)),
                          (''channel'',
                           (case List.find (\<lambda>c. cid c = channel n) (channelModel s) of
                              None \<Rightarrow> VNull
                            | Some ch \<Rightarrow> VObj [(''_id'', VStr (cid ch)), (''name'', VStr (name ch)),
                                               (''type'', VStr (ctype ch))]))]"
      by (auto simp add: getNote_def catch_rethrow_def)
    show ?thesis
    proof (cases "List.find (\<lambda>c. cid c = channel n) (channelModel s)")
      case C: None
      with r n show ?thesis by (intro bexI [of _ n]) (simp_all add: obj_get_def)
    next
      case (Some ch)
      from find_Some_in [OF Some] have "ch \<in> set (channelModel s)" "cid ch = channel n"
        by simp_all
      with r n Some show ?thesis by (intro bexI [of _ n]) (auto simp add: obj_get_def)
    qed
  qed
qed

lemma getNotes_owner_scoped:
  assumes "fst (getNotes q u s) = Inr r"
  shows "\<exists>ns. set ns \<subseteq> {n \<in> set (noteModel s). user n = u}
           \<and> page_data (data r) =
               map (select_doc note_path note_paths True [''id'', ''content'', ''tags'', ''status'']) ns"
proof (cases "outage s")
  case (Some m)
  with assms show ?thesis
    by (simp add: getNotes_def outage_getNotes_try catch_rethrow_def)
next
  case None
  let ?ns = "limit_docs (limit q) (drop (skip q) (filter (\<lambda>n. user n = u) (noteModel s)))"
  have "set ?ns \<subseteq> set (drop (skip q) (filter (\<lambda>n. user n = u) (noteModel s)))"
    by (rule set_limit_docs)
  also have "\<dots> \<subseteq> set (filter (\<lambda>n. user n = u) (noteModel s))"
    by (rule set_drop_subset)
  finally have "set ?ns \<subseteq> {n \<in> set (noteModel s). user n = u}" by auto
  moreover from assms None
  have "page_data (data r) =
          map (select_doc note_path note_paths True [''id'', ''content'', ''tags'', ''status'']) ?ns"
    by (auto simp add: getNotes_def getNotes_try_def catch_rethrow_def store_call_def
        owner_filter_fun)
  ultimately show ?thesis by blast
qed

lemma updateNote_owner_scoped:
  "length (noteModel (snd (updateNote i u pl s))) = length (noteModel s)
   \<and> (\<forall>k<length (noteModel s). user (noteModel s ! k) \<noteq> u \<longrightarrow>
         noteModel (snd (updateNote i u pl s)) ! k = noteModel s ! k)
   \<and> channelModel (snd (updateNote i u pl s)) = channelModel s"
  by (cases "outage s"; cases "update_sent s pl")
    (simp_all add: updateNote_def updateNote_try_def catch_rethrow_def store_call_def
      note_matches_fun update_first_length update_first_keeps)

lemma deleteNote_owner_scoped:
  "filter (\<lambda>n. user n \<noteq> u) (noteModel (snd (deleteNote i u s))) =
     filter (\<lambda>n. user n \<noteq> u) (noteModel s)"
proof -
  have "filter (\<lambda>n. user n \<noteq> u)
          (fst (delete_first (\<lambda>n. nid n = i \<and> user n = u) (noteModel s))) =
        filter (\<lambda>n. user n \<noteq> u) (noteModel s)"
    by (rule delete_first_keeps) simp
  then show ?thesis
    by (cases "outage s")
      (simp_all add: deleteNote_def deleteNote_try_def catch_rethrow_def store_call_def
        note_matches_fun split: option.splits)
qed

lemma getNotes_page_length:
  assumes "outage s = None" and "0 < limit q"
  shows "\<exists>r. getNotes q u s = (Inr r, s)
           \<and> length (page_data (data r)) =
               min (limit q) (length (filter (\<lambda>n. user n = u) (noteModel s)) - skip q)
           \<and> totalRecord (meta (data r)) = (if strictQuery s then length (noteModel s) else 0)"
  using assms
  by (simp add: getNotes_def getNotes_try_def catch_rethrow_def store_call_def
      owner_filter_fun count_filter_fun limit_docs_def)

lemma deleteNote_cascade:
  assumes "outage s = None"
    and "distinct (map nid (noteModel s))" and "distinct (map cid (channelModel s))"
    and "n \<in> set (noteModel s)" and "nid n = i" and "user n = u"
  shows "deleteNote i u s =
           (Inr \<lparr>data = \<lparr>deleted_id = i, deletedCount = 1\<rparr>, statusCode = NO_CONTENT\<rparr>,
            s\<lparr>noteModel := filter (\<lambda>m. nid m \<noteq> i) (noteModel s),
              channelModel := filter (\<lambda>c. cid c \<noteq> channel n) (channelModel s)\<rparr>)"
    and "\<exists>st. getNote i u (snd (deleteNote i u s)) =
           (Inl (HttpException ''Note Not Found'' st), snd (deleteNote i u s))"
proof -
  have f: "List.find (\<lambda>m. nid m = i \<and> user m = u) (noteModel s) = Some n"
    using assms(2,4,5,6) by (intro find_unique [where key = nid]) simp_all
  have d: "delete_first (\<lambda>m. nid m = i \<and> user m = u) (noteModel s) =
             (filter (\<lambda>m. nid m \<noteq> nid n) (noteModel s), 1)"
    using assms(2,4,5,6) by (intro delete_first_unique [where key = nid]) simp_all
  have c: "fst (delete_first (\<lambda>c. cid c = channel n) (channelModel s)) =
             filter (\<lambda>c. cid c \<noteq> channel n) (channelModel s)"
    using assms(3) by (rule delete_first_by_key)
  show del: "deleteNote i u s =
           (Inr \<lparr>data = \<lparr>deleted_id = i, deletedCount = 1\<rparr>, statusCode = NO_CONTENT\<rparr>,
            s\<lparr>noteModel := filter (\<lambda>m. nid m \<noteq> i) (noteModel s),
              channelModel := filter (\<lambda>c. cid c \<noteq> channel n) (channelModel s)\<rparr>)"
    using assms(1,5) f d c
    by (simp add: deleteNote_def deleteNote_try_def catch_rethrow_def store_call_def
        note_matches_fun channel_id_fun)
  let ?s' = "snd (deleteNote i u s)"
  have "outage ?s' = None" using del assms(1) by simp
  moreover have "\<forall>m\<in>set (noteModel ?s'). \<not> (nid m = i \<and> user m = u)"
    using del by simp
  ultimately have "getNote_try i u ?s' = (Inl (HttpException ''Note Not Found'' NOT_FOUND), ?s')"
    by (rule getNote_try_not_found)
  then show "\<exists>st. getNote i u ?s' = (Inl (HttpException ''Note Not Found'' st), ?s')"
    by (simp add: getNote_def catch_rethrow_def)
qed

lemma createNote_no_channel_inserts_nothing:
  assumes "outage s = None" and "\<not> truthy (channelId p)"
    and "\<forall>c\<in>set (channelModel s). \<not> (isDefault c \<and> cuser c = u \<and> deletedAt c = None)"
  shows "\<exists>st. createNote newId p u s =
           (Inl (HttpException ''You need to connect to at least one channel'' st), s)"
  using createNote_try_no_channel [OF assms]
  by (simp add: createNote_def catch_rethrow_def)

lemma createNote_keeps_ids_distinct:
  "distinct (map nid (noteModel s)) \<Longrightarrow>
   distinct (map nid (noteModel (snd (createNote newId p u s))))"
  by (auto simp add: createNote_def createNote_try_def catch_rethrow_def note_create_def
      split: sum.splits option.splits if_splits)

section \<open>The claims\<close>

text \<open>
  C1. The claim: a Note of \<open>u1\<close> is never returned to, nor matched for, a caller
  \<open>u2 \<noteq> u1\<close>, and every query of \<open>getNote\<close>, \<open>getNotes\<close>, \<open>updateNote\<close> and
  \<open>deleteNote\<close> on the Note collection filters on \<open>user = userId\<close>. On the code, the
  count query of \<open>getNotes\<close> does not filter on \<open>user = userId\<close>: with \<open>strictQuery\<close> on it matches a note of \<open>u1\<close> when invoked for \<open>u2\<close>, who then
  reads \<open>totalRecord = 1\<close> beside an empty page; with \<open>strictQuery\<close> off it does not match
  the caller's own note. The queries that return or change notes do filter on the
  owner: lemmas \<open>getNote_owner_scoped\<close>, \<open>getNotes_owner_scoped\<close>,
  \<open>updateNote_owner_scoped\<close> and \<open>deleteNote_owner_scoped\<close>.
\<close>

theorem getNotes_count_query_not_on_user:
  "note_matches (ex_service [ex_note] [] True) [(''userId'', VStr ''u2'')] ex_note
   \<and> \<not> note_matches (ex_service [ex_note] [] False) [(''userId'', VStr ''u1'')] ex_note
   \<and> fst (getNotes \<lparr>skip = 0, limit = 10\<rparr> ''u2'' (ex_service [ex_note] [] True)) =
       Inr \<lparr>data = \<lparr>page_data = [],
                     meta = \<lparr>totalRecord = 1, pageOptionsDto = \<lparr>skip = 0, limit = 10\<rparr>\<rparr>\<rparr>,
            statusCode = OK\<rparr>
   \<and> fst (getNotes \<lparr>skip = 0, limit = 10\<rparr> ''u1'' (ex_service [ex_note] [] False)) =
       Inr \<lparr>data = \<lparr>page_data = [[(''content'', VStr ''buy milk''),
                                   (''tags'', VArr [''home'']), (''status'', VStr ''pending'')]],
                     meta = \<lparr>totalRecord = 0, pageOptionsDto = \<lparr>skip = 0, limit = 10\<rparr>\<rparr>\<rparr>,
            statusCode = OK\<rparr>"
  by (simp add: eval_defs)

text \<open>
  C2. Error collapse. For each of the five methods, an error \<open>e\<close> thrown by the
  \<open>try\<close> block leaves the method as an \<open>HttpException\<close> with the message of \<open>e\<close> and
  status INTERNAL_SERVER_ERROR, and no method ever fails with another status. This covers
  the errors the blocks raise themselves: the NOT_FOUND of \<open>getNote\<close> and \<open>deleteNote\<close>
  when no note matches and the NOT_FOUND of \<open>createNote\<close> when there is no default
  channel all reach the caller with status 500 and their message; and it covers an error
  of the store, in every method that contacts the store (\<open>updateNote\<close> does when its
  update is sent).
\<close>

theorem error_collapse:
  "(\<forall>e. fst (createNote_try newId p u s) = Inl e \<longrightarrow>
        fst (createNote newId p u s) = Inl (HttpException (message e) INTERNAL_SERVER_ERROR))
   \<and> (\<forall>e. fst (getNote_try i u s) = Inl e \<longrightarrow>
        fst (getNote i u s) = Inl (HttpException (message e) INTERNAL_SERVER_ERROR))
   \<and> (\<forall>e. fst (getNotes_try q u s) = Inl e \<longrightarrow>
        fst (getNotes q u s) = Inl (HttpException (message e) INTERNAL_SERVER_ERROR))
   \<and> (\<forall>e. fst (updateNote_try i u pl s) = Inl e \<longrightarrow>
        fst (updateNote i u pl s) = Inl (HttpException (message e) INTERNAL_SERVER_ERROR))
   \<and> (\<forall>e. fst (deleteNote_try i u s) = Inl e \<longrightarrow>
        fst (deleteNote i u s) = Inl (HttpException (message e) INTERNAL_SERVER_ERROR))
   \<and> (\<forall>e. fst (createNote newId p u s) = Inl e \<or> fst (getNote i u s) = Inl e
          \<or> fst (getNotes q u s) = Inl e \<or> fst (updateNote i u pl s) = Inl e
          \<or> fst (deleteNote i u s) = Inl e \<longrightarrow>
        error_status e = Some INTERNAL_SERVER_ERROR)
   \<and> (outage s = None \<and> (\<forall>n\<in>set (noteModel s). \<not> (nid n = i \<and> user n = u)) \<longrightarrow>
        fst (getNote_try i u s) = Inl (HttpException ''Note Not Found'' NOT_FOUND)
        \<and> fst (getNote i u s) = Inl (HttpException ''Note Not Found'' INTERNAL_SERVER_ERROR)
        \<and> fst (deleteNote_try i u s) = Inl (HttpException ''Note Not Found'' NOT_FOUND)
        \<and> fst (deleteNote i u s) = Inl (HttpException ''Note Not Found'' INTERNAL_SERVER_ERROR))
   \<and> (outage s = None \<and> \<not> truthy (channelId p)
        \<and> (\<forall>c\<in>set (channelModel s). \<not> (isDefault c \<and> cuser c = u \<and> deletedAt c = None)) \<longrightarrow>
        fst (createNote_try newId p u s) =
          Inl (HttpException ''You need to connect to at least one channel'' NOT_FOUND)
        \<and> fst (createNote newId p u s) =
          Inl (HttpException ''You need to connect to at least one channel''
                 INTERNAL_SERVER_ERROR))
   \<and> (\<forall>m. outage s = Some m \<longrightarrow>
        fst (createNote newId p u s) = Inl (HttpException m INTERNAL_SERVER_ERROR)
        \<and> fst (getNote i u s) = Inl (HttpException m INTERNAL_SERVER_ERROR)
        \<and> fst (getNotes q u s) = Inl (HttpException m INTERNAL_SERVER_ERROR)
        \<and> (update_sent s pl \<longrightarrow>
             fst (updateNote i u pl s) = Inl (HttpException m INTERNAL_SERVER_ERROR))
        \<and> fst (deleteNote i u s) = Inl (HttpException m INTERNAL_SERVER_ERROR))"
proof -
  have a: "\<forall>e. fst (createNote newId p u s) = Inl e \<or> fst (getNote i u s) = Inl e
          \<or> fst (getNotes q u s) = Inl e \<or> fst (updateNote i u pl s) = Inl e
          \<or> fst (deleteNote i u s) = Inl e \<longrightarrow>
        error_status e = Some INTERNAL_SERVER_ERROR"
    unfolding createNote_def getNote_def getNotes_def updateNote_def deleteNote_def
    by (blast dest: catch_rethrow_status)
  have b: "outage s = None \<and> (\<forall>n\<in>set (noteModel s). \<not> (nid n = i \<and> user n = u)) \<longrightarrow>
        fst (getNote_try i u s) = Inl (HttpException ''Note Not Found'' NOT_FOUND)
        \<and> fst (getNote i u s) = Inl (HttpException ''Note Not Found'' INTERNAL_SERVER_ERROR)
        \<and> fst (deleteNote_try i u s) = Inl (HttpException ''Note Not Found'' NOT_FOUND)
        \<and> fst (deleteNote i u s) = Inl (HttpException ''Note Not Found'' INTERNAL_SERVER_ERROR)"
    by (simp add: getNote_def deleteNote_def getNote_try_not_found deleteNote_try_not_found
        catch_rethrow_def)
  have c: "outage s = None \<and> \<not> truthy (channelId p)
        \<and> (\<forall>c\<in>set (channelModel s). \<not> (isDefault c \<and> cuser c = u \<and> deletedAt c = None)) \<longrightarrow>
        fst (createNote_try newId p u s) =
          Inl (HttpException ''You need to connect to at least one channel'' NOT_FOUND)
        \<and> fst (createNote newId p u s) =
          Inl (HttpException ''You need to connect to at least one channel''
                 INTERNAL_SERVER_ERROR)"
    by (simp add: createNote_def createNote_try_no_channel catch_rethrow_def)
  have d: "\<forall>m. outage s = Some m \<longrightarrow>
        fst (createNote newId p u s) = Inl (HttpException m INTERNAL_SERVER_ERROR)
        \<and> fst (getNote i u s) = Inl (HttpException m INTERNAL_SERVER_ERROR)
        \<and> fst (getNotes q u s) = Inl (HttpException m INTERNAL_SERVER_ERROR)
        \<and> (update_sent s pl \<longrightarrow>
             fst (updateNote i u pl s) = Inl (HttpException m INTERNAL_SERVER_ERROR))
        \<and> fst (deleteNote i u s) = Inl (HttpException m INTERNAL_SERVER_ERROR)"
    by (simp add: createNote_def getNote_def getNotes_def updateNote_def deleteNote_def
        outage_createNote_try outage_getNote_try outage_getNotes_try outage_updateNote_try
        outage_deleteNote_try catch_rethrow_def)
  have w1: "\<forall>e. fst (createNote_try newId p u s) = Inl e \<longrightarrow>
        fst (createNote newId p u s) = Inl (HttpException (message e) INTERNAL_SERVER_ERROR)"
    by (simp add: createNote_def rethrow_fst)
  have w2: "\<forall>e. fst (getNote_try i u s) = Inl e \<longrightarrow>
        fst (getNote i u s) = Inl (HttpException (message e) INTERNAL_SERVER_ERROR)"
    by (simp add: getNote_def rethrow_fst)
  have w3: "\<forall>e. fst (getNotes_try q u s) = Inl e \<longrightarrow>
        fst (getNotes q u s) = Inl (HttpException (message e) INTERNAL_SERVER_ERROR)"
    by (simp add: getNotes_def rethrow_fst)
  have w4: "\<forall>e. fst (updateNote_try i u pl s) = Inl e \<longrightarrow>
        fst (updateNote i u pl s) = Inl (HttpException (message e) INTERNAL_SERVER_ERROR)"
    by (simp add: updateNote_def rethrow_fst)
  have w5: "\<forall>e. fst (deleteNote_try i u s) = Inl e \<longrightarrow>
        fst (deleteNote i u s) = Inl (HttpException (message e) INTERNAL_SERVER_ERROR)"
    by (simp add: deleteNote_def rethrow_fst)
  from w1 w2 w3 w4 w5 a b c d show ?thesis
    by (intro conjI)
qed

theorem error_collapse_witness:
  "fst (createNote ''n7'' ex_payload ''u2'' (ex_service [ex_note] [ex_channel] False)) =
     Inl (HttpException ''You need to connect to at least one channel'' INTERNAL_SERVER_ERROR)
   \<and> fst (getNote ''n1'' ''u2'' (ex_service [ex_note] [ex_channel] False)) =
     Inl (HttpException ''Note Not Found'' INTERNAL_SERVER_ERROR)
   \<and> fst (deleteNote ''n1'' ''u2'' (ex_service [ex_note] [ex_channel] False)) =
     Inl (HttpException ''Note Not Found'' INTERNAL_SERVER_ERROR)
   \<and> fst (getNotes \<lparr>skip = 0, limit = 10\<rparr> ''u1''
          ((ex_service [ex_note] [ex_channel] False)\<lparr>outage := Some ''connection refused''\<rparr>)) =
     Inl (HttpException ''connection refused'' INTERNAL_SERVER_ERROR)
   \<and> fst (updateNote ''n1'' ''u1'' [(''content'', VStr ''buy bread'')]
          ((ex_service [ex_note] [ex_channel] False)\<lparr>outage := Some ''connection refused''\<rparr>)) =
     Inl (HttpException ''connection refused'' INTERNAL_SERVER_ERROR)"
  using error_collapse [of "''n7''" ex_payload "''u2''" "ex_service [ex_note] [ex_channel] False"
      "''n1''" "\<lparr>skip = 0, limit = 10\<rparr>" "[(''content'', VStr ''buy bread'')]"]
    error_collapse [of "''n7''" ex_payload "''u1''"
      "(ex_service [ex_note] [ex_channel] False)\<lparr>outage := Some ''connection refused''\<rparr>"
      "''n1''" "\<lparr>skip = 0, limit = 10\<rparr>" "[(''content'', VStr ''buy bread'')]"]
  by (simp add: ex_service_def ex_note_def ex_channel_def ex_payload_def update_sent_def
      note_paths_def)

text \<open>
  C3. The claim: for a user owning \<open>N\<close> notes, the page of \<open>getNotes\<close> has
  \<open>min(L, max(0, N - S))\<close> notes and \<open>totalRecord\<close> is \<open>N\<close>. On the code, at a store
  where user \<open>u1\<close> owns 3 of the 4 notes: with \<open>skip = 1\<close> and \<open>limit = 5\<close>
  the page has 2 notes, and \<open>totalRecord\<close> is 0 with \<open>strictQuery\<close> off and 4 with it
  on: the count query filters on the key \<open>userId\<close>, which no Note has, and is never 3.
  Lemma \<open>getNotes_page_length\<close> gives the page length and the count in general.
\<close>

theorem getNotes_totalRecord_not_owner_count:
  "map_sum id (\<lambda>r. (length (page_data (data r)), totalRecord (meta (data r))))
     (fst (getNotes \<lparr>skip = 1, limit = 5\<rparr> ''u1''
        (ex_service [ex_note, ex_note2, ex_note\<lparr>nid := ''n3''\<rparr>, ex_note\<lparr>nid := ''n4''\<rparr>] []
           False))) = Inr (2, 0)
   \<and> map_sum id (\<lambda>r. (length (page_data (data r)), totalRecord (meta (data r))))
     (fst (getNotes \<lparr>skip = 1, limit = 5\<rparr> ''u1''
        (ex_service [ex_note, ex_note2, ex_note\<lparr>nid := ''n3''\<rparr>, ex_note\<lparr>nid := ''n4''\<rparr>] []
           True))) = Inr (2, 4)
   \<and> length (filter (\<lambda>n. user n = ''u1'')
        [ex_note, ex_note2, ex_note\<lparr>nid := ''n3''\<rparr>, ex_note\<lparr>nid := ''n4''\<rparr>]) = 3"
  by (simp add: eval_defs)

text \<open>
  C4. The claim: \<open>deleteNote\<close> of an owned note deletes that note and the channel it
  references, returns \<open>deletedCount = 1\<close> with NO_CONTENT, and a following \<open>getNote\<close>
  fails with NotFound. On the code, \<open>deleteNote\<close> of an owned note removes the note and the channel it
  references and returns \<open>deletedCount = 1\<close> with NO_CONTENT; the \<open>getNote\<close> that follows
  raises NOT_FOUND in its \<open>try\<close> block and fails with status INTERNAL_SERVER_ERROR.
  Lemma \<open>deleteNote_cascade\<close> is the deletion for every owned note of a store with
  unique identifiers.
\<close>

theorem deleteNote_then_getNote_status:
  "deleteNote ''n1'' ''u1'' (ex_service [ex_note, ex_note2] [ex_channel] False) =
     (Inr \<lparr>data = \<lparr>deleted_id = ''n1'', deletedCount = 1\<rparr>, statusCode = NO_CONTENT\<rparr>,
      ex_service [ex_note2] [] False)
   \<and> getNote_try ''n1'' ''u1'' (ex_service [ex_note2] [] False) =
     (Inl (HttpException ''Note Not Found'' NOT_FOUND), ex_service [ex_note2] [] False)
   \<and> getNote ''n1'' ''u1'' (ex_service [ex_note2] [] False) =
     (Inl (HttpException ''Note Not Found'' INTERNAL_SERVER_ERROR),
      ex_service [ex_note2] [] False)"
  by (simp add: eval_defs)

text \<open>
  C5. The claim: \<open>createNote\<close> without \<open>channelId\<close> and with no active default
  channel of the caller fails with a NotFound-kind error and inserts no note. On the
  code, \<open>createNote\<close> without \<open>channelId\<close>, for a user whose only channels
  are another user's default channel and a soft-deleted default channel: the \<open>try\<close>
  block raises the NOT_FOUND exception, and the method fails with status
  INTERNAL_SERVER_ERROR; no note is inserted (in general: lemma
  \<open>createNote_no_channel_inserts_nothing\<close>).
\<close>

theorem createNote_no_channel_status:
  "createNote_try ''n7'' ex_payload ''u1''
      (ex_service [] [ex_channel\<lparr>cid := ''c2'', cuser := ''u2''\<rparr>, ex_channel\<lparr>deletedAt := Some ''2024-01-01''\<rparr>]
         False) =
     (Inl (HttpException ''You need to connect to at least one channel'' NOT_FOUND),
      ex_service [] [ex_channel\<lparr>cid := ''c2'', cuser := ''u2''\<rparr>, ex_channel\<lparr>deletedAt := Some ''2024-01-01''\<rparr>]
         False)
   \<and> createNote ''n7'' ex_payload ''u1''
      (ex_service [] [ex_channel\<lparr>cid := ''c2'', cuser := ''u2''\<rparr>, ex_channel\<lparr>deletedAt := Some ''2024-01-01''\<rparr>]
         False) =
     (Inl (HttpException ''You need to connect to at least one channel'' INTERNAL_SERVER_ERROR),
      ex_service [] [ex_channel\<lparr>cid := ''c2'', cuser := ''u2''\<rparr>, ex_channel\<lparr>deletedAt := Some ''2024-01-01''\<rparr>]
         False)"
  by (simp add: eval_defs)

text \<open>
  C6. When \<open>payload.channelId\<close> is absent (falsy), exactly one channel has
  \<open>isDefault = true\<close>, \<open>user = userId\<close> and \<open>deletedAt = null\<close>, the store answers and
  the new identifier is not yet in use, \<open>createNote\<close> appends a Note whose channel is that
  channel's identifier, whose content and tags are the payload's and whose user is the
  caller, and returns the new identifier with status CREATED (201).
\<close>

theorem createNote_default_channel:
  assumes "\<not> truthy (channelId payload)"
    and "filter (\<lambda>c. isDefault c \<and> cuser c = u \<and> deletedAt c = None) (channelModel s) = [ch]"
    and "outage s = None"
    and "newId \<notin> nid ` set (noteModel s)"
  shows "createNote newId payload u s =
           (Inr \<lparr>data = \<lparr>created_id = newId\<rparr>, statusCode = CREATED\<rparr>,
            s\<lparr>noteModel := noteModel s @
                 [\<lparr>nid = newId, content = dto_content payload, tags = dto_tags payload,
                   channel = cid ch, user = u, status = statusDefault s\<rparr>]\<rparr>)
         \<and> http_code CREATED = 201"
proof -
  have "List.find (\<lambda>c. isDefault c \<and> cuser c = u \<and> deletedAt c = None) (channelModel s) = Some ch"
    using assms(2) by (rule find_filter_single)
  then show ?thesis
    using assms(1,3,4)
    by (simp add: createNote_def createNote_try_def resolve_channel_def note_create_def
        catch_rethrow_def store_call_def default_channel_fun)
qed

theorem createNote_default_channel_witness:
  "createNote ''n7'' ex_payload ''u1''
      (ex_service [] [ex_channel\<lparr>cid := ''c0'', isDefault := False\<rparr>, ex_channel] False) =
     (Inr \<lparr>data = \<lparr>created_id = ''n7''\<rparr>, statusCode = CREATED\<rparr>,
      ex_service
        [\<lparr>nid = ''n7'', content = ''buy milk'', tags = [''home''], channel = ''c1'',
          user = ''u1'', status = ''pending''\<rparr>]
        [ex_channel\<lparr>cid := ''c0'', isDefault := False\<rparr>, ex_channel] False)"
  using createNote_default_channel [of ex_payload "''u1''"
      "ex_service [] [ex_channel\<lparr>cid := ''c0'', isDefault := False\<rparr>, ex_channel] False"
      ex_channel "''n7''"]
  by (simp add: ex_service_def ex_channel_def ex_payload_def)

text \<open>
  C7. The claim: for a note matching \<open>_id = id\<close> and \<open>user = userId\<close>, \<open>getNote\<close>
  returns status OK and the fields id, content, tags, channel and status, the channel as
  an object with name and type only; with no match it fails with NotFound. On the code,
  for an owned note: the response has the fields id, content, tags and channel; id is
  undefined, since the note is read with \<open>lean()\<close> and \<open>-_id\<close> and \<open>id\<close> is no stored
  path; status is selected and not put in the response; the channel object carries
  \<open>_id\<close> beside name and type, and is null when the referenced channel does not exist.
  With no match the \<open>try\<close> block raises NOT_FOUND and the method fails with status
  INTERNAL_SERVER_ERROR. Lemma \<open>getNote_try_found\<close> is the response for every state.
\<close>

theorem getNote_response_on_code:
  "getNote ''n1'' ''u1'' (ex_service [ex_note2, ex_note] [ex_channel] False) =
     (Inr \<lparr>data = [(''id'', VUndefined), (''content'', VStr ''buy milk''),
                    (''tags'', VArr [''home'']),
                    (''channel'', VObj [(''_id'', VStr ''c1''), (''name'', VStr ''general''),
                                        (''type'', VStr ''telegram'')])],
            statusCode = OK\<rparr>,
      ex_service [ex_note2, ex_note] [ex_channel] False)
   \<and> fst (getNote ''n1'' ''u1'' (ex_service [ex_note2, ex_note] [] False)) =
       Inr \<lparr>data = [(''id'', VUndefined), (''content'', VStr ''buy milk''),
                    (''tags'', VArr [''home'']), (''channel'', VNull)],
            statusCode = OK\<rparr>
   \<and> getNote_try ''n1'' ''u2'' (ex_service [ex_note2, ex_note] [ex_channel] False) =
     (Inl (HttpException ''Note Not Found'' NOT_FOUND),
      ex_service [ex_note2, ex_note] [ex_channel] False)
   \<and> getNote ''n1'' ''u2'' (ex_service [ex_note2, ex_note] [ex_channel] False) =
     (Inl (HttpException ''Note Not Found'' INTERNAL_SERVER_ERROR),
      ex_service [ex_note2, ex_note] [ex_channel] False)"
  by (simp add: eval_defs)

text \<open>
  C8 (amended). When no note has both \<open>_id = id\<close> and \<open>user = userId\<close>, \<open>updateNote\<close>
  makes no query before the update, returns status OK and leaves the state, the Note
  collection included, as it was. When the update is sent (the payload names a path of
  the Note schema, or the schema has \<open>timestamps\<close>) and the store answers, \<open>matchedCount\<close>
  and \<open>modifiedCount\<close> are 0. When the update is not sent (a payload with no schema
  path, such as the empty one, and no \<open>timestamps\<close>), the store is not contacted and
  both counts are undefined.
\<close>

theorem updateNote_no_match:
  assumes "\<forall>n\<in>set (noteModel s). \<not> (nid n = i \<and> user n = u)"
  shows "(outage s = None \<and> update_sent s payload \<longrightarrow>
            updateNote i u payload s =
              (Inr \<lparr>data = \<lparr>updated_id = i, matchedCount = Some 0, modifiedCount = Some 0\<rparr>,
                    statusCode = OK\<rparr>, s))
       \<and> (\<not> update_sent s payload \<longrightarrow>
            updateNote i u payload s =
              (Inr \<lparr>data = \<lparr>updated_id = i, matchedCount = None, modifiedCount = None\<rparr>,
                    statusCode = OK\<rparr>, s))"
proof -
  have "update_first (note_matches s (note_filter i u)) (apply_set payload) (timestamps s)
          (noteModel s) = (noteModel s, 0, 0)"
    using assms by (intro update_first_none) (simp add: note_filter_iff)
  then show ?thesis
    by (simp add: updateNote_def updateNote_try_def store_call_def catch_rethrow_def)
qed

theorem updateNote_no_match_witness:
  "updateNote ''n1'' ''u2'' [(''content'', VStr ''changed'')]
      (ex_service [ex_note] [ex_channel] False) =
     (Inr \<lparr>data = \<lparr>updated_id = ''n1'', matchedCount = Some 0, modifiedCount = Some 0\<rparr>,
           statusCode = OK\<rparr>,
      ex_service [ex_note] [ex_channel] False)
   \<and> updateNote ''n1'' ''u2'' [(''channelId'', VStr ''c1'')]
      (ex_service [ex_note] [ex_channel] False) =
     (Inr \<lparr>data = \<lparr>updated_id = ''n1'', matchedCount = None, modifiedCount = None\<rparr>,
           statusCode = OK\<rparr>,
      ex_service [ex_note] [ex_channel] False)"
  using updateNote_no_match [of "ex_service [ex_note] [ex_channel] False" "''n1''" "''u2''"
      "[(''content'', VStr ''changed'')]"]
    updateNote_no_match [of "ex_service [ex_note] [ex_channel] False" "''n1''" "''u2''"
      "[(''channelId'', VStr ''c1'')]"]
  by (simp add: ex_service_def ex_note_def update_sent_def note_paths_def)

text \<open>
  The claim as first stated fails on the code: with the empty payload and a schema
  without \<open>timestamps\<close>, the counts of the response are undefined, not 0.
\<close>

theorem updateNote_no_match_counterexample:
  "updateNote ''n1'' ''u2'' [] (ex_service [ex_note] [ex_channel] False) =
     (Inr \<lparr>data = \<lparr>updated_id = ''n1'', matchedCount = None, modifiedCount = None\<rparr>,
           statusCode = OK\<rparr>,
      ex_service [ex_note] [ex_channel] False)
   \<and> \<not> (\<exists>r. fst (updateNote ''n1'' ''u2'' [] (ex_service [ex_note] [ex_channel] False)) = Inr r
            \<and> matchedCount (data r) = Some 0 \<and> modifiedCount (data r) = Some 0)"
  by (simp add: updateNote_def updateNote_try_def catch_rethrow_def update_sent_def
      ex_service_def)

text \<open>
  C9. When \<open>payload.channelId\<close> is truthy (present and not the empty string), the
  store answers and the new identifier is not yet in use, \<open>createNote\<close> succeeds with
  status CREATED and appends a Note whose channel is that \<open>channelId\<close>. Nothing is
  assumed of the Channel collection: no channel is looked up, so the referenced channel
  need not exist, may be soft-deleted and may belong to someone else, and the
  default-channel lookup with its not-found error is skipped.
\<close>

theorem createNote_given_channel:
  assumes "channelId payload = Some c" and "c \<noteq> []"
    and "outage s = None"
    and "newId \<notin> nid ` set (noteModel s)"
  shows "createNote newId payload u s =
           (Inr \<lparr>data = \<lparr>created_id = newId\<rparr>, statusCode = CREATED\<rparr>,
            s\<lparr>noteModel := noteModel s @
                 [\<lparr>nid = newId, content = dto_content payload, tags = dto_tags payload,
                   channel = c, user = u, status = statusDefault s\<rparr>]\<rparr>)"
  using assms
  by (simp add: createNote_def createNote_try_def resolve_channel_def note_create_def
      catch_rethrow_def)

theorem createNote_given_channel_witness:
  "createNote ''n7'' (ex_payload\<lparr>channelId := Some ''c404''\<rparr>) ''u2''
      (ex_service [ex_note] [ex_channel\<lparr>deletedAt := Some ''2024-01-01''\<rparr>] True) =
     (Inr \<lparr>data = \<lparr>created_id = ''n7''\<rparr>, statusCode = CREATED\<rparr>,
      ex_service
        [ex_note,
         \<lparr>nid = ''n7'', content = ''buy milk'', tags = [''home''], channel = ''c404'',
          user = ''u2'', status = ''pending''\<rparr>]
        [ex_channel\<lparr>deletedAt := Some ''2024-01-01''\<rparr>] True)"
  using createNote_given_channel [of "ex_payload\<lparr>channelId := Some ''c404''\<rparr>" "''c404''"
      "ex_service [ex_note] [ex_channel\<lparr>deletedAt := Some ''2024-01-01''\<rparr>] True" "''n7''" "''u2''"]
  by (simp add: ex_service_def ex_note_def ex_payload_def)

text \<open>
  C10. The response of \<open>deleteNote\<close> does not depend on the Channel collection: two
  states with the same notes (and the same store availability) give the same outcome,
  whatever their channels. When the method succeeds, \<open>deletedCount\<close> is the count of the
  deletion in the Note collection, the id is the one asked for and the status is
  NO_CONTENT.
\<close>

theorem deleteNote_count_from_note_deletion:
  assumes "noteModel s' = noteModel s" and "outage s' = outage s"
  shows "fst (deleteNote i u s') = fst (deleteNote i u s)
       \<and> (\<forall>r. fst (deleteNote i u s) = Inr r \<longrightarrow>
             deletedCount (data r) =
               snd (delete_first (\<lambda>n. nid n = i \<and> user n = u) (noteModel s))
           \<and> deleted_id (data r) = i \<and> statusCode r = NO_CONTENT)"
  using assms
  by (auto simp add: deleteNote_def deleteNote_try_def catch_rethrow_def store_call_def
      note_matches_fun split: option.splits)

theorem deleteNote_count_from_note_deletion_witness:
  "fst (deleteNote ''n1'' ''u1'' (ex_service [ex_note] [] False)) =
     fst (deleteNote ''n1'' ''u1'' (ex_service [ex_note] [ex_channel] False))
   \<and> fst (deleteNote ''n1'' ''u1'' (ex_service [ex_note] [ex_channel] False)) =
       Inr \<lparr>data = \<lparr>deleted_id = ''n1'', deletedCount = 1\<rparr>, statusCode = NO_CONTENT\<rparr>"
  using deleteNote_count_from_note_deletion [of "ex_service [ex_note] [] False"
      "ex_service [ex_note] [ex_channel] False" "''n1''" "''u1''"]
  by (simp add: deleteNote_def deleteNote_try_def catch_rethrow_def store_call_def
      note_matches_fun ex_service_def ex_note_def)

end
